theory Spec2Isabelle
  imports Complex_Main "HOL-Library.Word" "HOL-Library.Multiset"
begin

section \<open>Numeric conventions\<close>

text \<open>
  Go's \<^verbatim>\<open>int64\<close> fields are 64-bit words (addition wraps, comparisons are signed,
  \<^verbatim>\<open>float64(x)\<close> reads the signed value). Go's \<^verbatim>\<open>float64\<close> values are idealised as
  real numbers: rounding is not modelled. The one operation whose IEEE-754 result can be
  non-finite on finite operands and that a property below depends on, a division by
  zero, is modelled separately by \<open>float_div\<close>.
\<close>

type_synonym int64 = "64 word"

definition float64 :: "int64 \<Rightarrow> real" where
  "float64 x = real_of_int (sint x)"

text \<open>Signed comparison of two \<^verbatim>\<open>int64\<close> values, Go's \<^verbatim>\<open>x > y\<close>.\<close>

definition int64_gt :: "int64 \<Rightarrow> int64 \<Rightarrow> bool" where
  "int64_gt x y = (sint y < sint x)"

section \<open>Time values (package time of the standard library)\<close>

text \<open>
  A \<^verbatim>\<open>time.Time\<close> is an instant, in nanoseconds since the Unix epoch, read in a
  Location. A Location is its lookup function: for a Unix time in seconds it gives the
  zone in force then, with the offset east of UTC in seconds and the interval of Unix
  times \<open>[zoneStart, zoneEnd)\<close> on which that zone applies. A Location with daylight
  saving has several zones; \<open>FixedZone\<close> has one, on the whole \<^verbatim>\<open>int64\<close> range.
  The calendar date \<^verbatim>\<open>(Year, Month, Day)\<close> of a time is identified with its day number
  since the epoch on the local clock of its Location.
\<close>

record zone =
  zoneOffset :: int
  zoneStart :: int
  zoneEnd :: int

type_synonym Location = "int \<Rightarrow> zone"

definition FixedZone :: "int \<Rightarrow> Location" where
  "FixedZone off =
     (\<lambda>sec. \<lparr>zoneOffset = off, zoneStart = - 9223372036854775808,
              zoneEnd = 9223372036854775807\<rparr>)"

record gotime =
  unixNano :: int
  location :: Location

definition nsPerDay :: int where
  "nsPerDay = 86400000000000"

definition nsPerHour :: int where
  "nsPerHour = 3600000000000"

definition unixSec :: "gotime \<Rightarrow> int" where
  "unixSec t = unixNano t div 1000000000"

text \<open>The day number of \<^verbatim>\<open>(t.Year(), t.Month(), t.Day())\<close>: the date on the local clock.\<close>

definition civilDay :: "gotime \<Rightarrow> int" where
  "civilDay t = (unixSec t + zoneOffset (location t (unixSec t))) div 86400"

text \<open>
  \<^verbatim>\<open>time.Date(y, m, d, 0, 0, 0, 0, loc)\<close> for the date with day number \<open>day\<close>: the
  library takes the local midnight as if it were UTC, looks up the zone at that
  instant, and looks again at the corrected instant when that falls outside the zone
  found first; the offset found is subtracted.
\<close>

definition dateMidnight :: "int \<Rightarrow> Location \<Rightarrow> gotime" where
  "dateMidnight day loc =
     (let unix = day * 86400;
          z = loc unix;
          offset = zoneOffset z
      in if offset \<noteq> 0 then
           let utc = unix - offset;
               offset' = (if utc < zoneStart z \<or> utc \<ge> zoneEnd z
                          then zoneOffset (loc utc) else offset)
           in \<lparr>unixNano = (unix - offset') * 1000000000, location = loc\<rparr>
         else \<lparr>unixNano = unix * 1000000000, location = loc\<rparr>)"

text \<open>\<^verbatim>\<open>time.Date(t.Year(), t.Month(), t.Day(), 0, 0, 0, 0, t.Location())\<close>\<close>

definition startOfDay :: "gotime \<Rightarrow> gotime" where
  "startOfDay t = dateMidnight (civilDay t) (location t)"

text \<open>\<^verbatim>\<open>t.Sub(u)\<close>: a Duration in nanoseconds, saturating at the \<^verbatim>\<open>int64\<close> range.\<close>

definition time_Sub :: "gotime \<Rightarrow> gotime \<Rightarrow> int" where
  "time_Sub t u =
     (let d = unixNano t - unixNano u in
      if d > 9223372036854775807 then 9223372036854775807
      else if d < - 9223372036854775808 then - 9223372036854775808
      else d)"

text \<open>\<^verbatim>\<open>d.Hours()\<close>\<close>

definition duration_Hours :: "int \<Rightarrow> real" where
  "duration_Hours d = real_of_int d / real_of_int nsPerHour"

text \<open>Go's conversion \<^verbatim>\<open>int(x)\<close> of a float: truncation toward zero.\<close>

definition go_int :: "real \<Rightarrow> int" where
  "go_int x = (if 0 \<le> x then \<lfloor>x\<rfloor> else \<lceil>x\<rceil>)"

section \<open>The agent model (models.Agent)\<close>

record Agent =
  ID :: int64
  Name :: string
  TotalPredictions :: int64
  CorrectPredictions :: int64
  ResolvedPredictions :: int64
  AccuracyScore :: real
  EngagementScore :: real
  CreatorScore :: real
  ActivityScore :: real
  CompositeScore :: real
  Reputation :: real
  TotalUpvotesReceived :: int64
  TotalDownvotesReceived :: int64
  TotalCommentsReceived :: int64
  TotalFollowers :: int64
  LastActiveAt :: "gotime option"
  CurrentStreak :: int64
  LongestStreak :: int64
  DaysActiveMonth :: int64
  MarketsCreated :: int64
  MarketEngagementAvg :: real

subsection \<open>Score calculation methods\<close>

definition RecalculateAccuracyScore :: "Agent \<Rightarrow> Agent" where
  "RecalculateAccuracyScore a =
     (if ResolvedPredictions a = 0 then a\<lparr>AccuracyScore := 50\<rparr>
      else
        let accuracy = float64 (CorrectPredictions a) / float64 (ResolvedPredictions a) * 100;
            priorStrength = 10
        in a\<lparr>AccuracyScore :=
               (accuracy * float64 (ResolvedPredictions a) + 50 * priorStrength)
               / (float64 (ResolvedPredictions a) + priorStrength)\<rparr>)"

definition RecalculateEngagementScore :: "Agent \<Rightarrow> Agent" where
  "RecalculateEngagementScore a =
     (let totalEngagement =
            float64 (TotalUpvotesReceived a + TotalCommentsReceived a + TotalFollowers a)
      in if totalEngagement \<le> 0 then a\<lparr>EngagementScore := 0\<rparr>
         else a\<lparr>EngagementScore := min 100 (log 10 (totalEngagement + 1) * 25)\<rparr>)"

definition RecalculateActivityScore :: "Agent \<Rightarrow> Agent" where
  "RecalculateActivityScore a =
     (if DaysActiveMonth a = 0 then a\<lparr>ActivityScore := 0\<rparr>
      else
        let baseActivity = float64 (DaysActiveMonth a) / 30 * 100;
            streakMultiplier = 1 + min (1/2) (float64 (CurrentStreak a) / 60)
        in a\<lparr>ActivityScore := min 100 (baseActivity * streakMultiplier)\<rparr>)"

definition RecalculateCreatorScore :: "Agent \<Rightarrow> Agent" where
  "RecalculateCreatorScore a =
     (if MarketsCreated a = 0 then a\<lparr>CreatorScore := 0\<rparr>
      else a\<lparr>CreatorScore :=
               min 100 (MarketEngagementAvg a * (1/2) + float64 (MarketsCreated a) * 2)\<rparr>)"

definition RecalculateCompositeScore :: "Agent \<Rightarrow> Agent" where
  "RecalculateCompositeScore a =
     a\<lparr>CompositeScore :=
         AccuracyScore a * (40/100) + EngagementScore a * (25/100)
         + CreatorScore a * (20/100) + ActivityScore a * (15/100)\<rparr>"

definition RecalculateAllScores :: "Agent \<Rightarrow> Agent" where
  "RecalculateAllScores a =
     (let a1 = RecalculateAccuracyScore a;
          a2 = RecalculateEngagementScore a1;
          a3 = RecalculateActivityScore a2;
          a4 = RecalculateCreatorScore a3;
          a5 = RecalculateCompositeScore a4
      in a5\<lparr>Reputation := CompositeScore a5 / 100\<rparr>)"

subsection \<open>Activity tracking\<close>

text \<open>
  \<open>UpdateActivity\<close> reads the clock once (\<^verbatim>\<open>time.Now()\<close>); the value read is the
  argument \<open>now\<close>.
\<close>

definition UpdateActivity :: "gotime \<Rightarrow> Agent \<Rightarrow> Agent" where
  "UpdateActivity now a =
     (let today = startOfDay now;
          a1 = (case LastActiveAt a of
                  None \<Rightarrow> a\<lparr>CurrentStreak := 1, DaysActiveMonth := 1\<rparr>
                | Some lastAt \<Rightarrow>
                    let lastActive = startOfDay lastAt;
                        daysDiff = go_int (duration_Hours (time_Sub today lastActive) / 24)
                    in if daysDiff = 0 then a
                       else if daysDiff = 1 then
                         a\<lparr>CurrentStreak := CurrentStreak a + 1,
                           DaysActiveMonth := DaysActiveMonth a + 1\<rparr>
                       else
                         a\<lparr>CurrentStreak := 1,
                           DaysActiveMonth := DaysActiveMonth a + 1\<rparr>);
          a2 = (if int64_gt (CurrentStreak a1) (LongestStreak a1)
                then a1\<lparr>LongestStreak := CurrentStreak a1\<rparr> else a1)
      in a2\<lparr>LastActiveAt := Some now\<rparr>)"

section \<open>Swarm consensus (handlers/agents)\<close>

text \<open>
  Of \<^verbatim>\<open>AgentBet\<close> only the fields that \<^verbatim>\<open>calculateSwarmConsensus\<close> reads are kept.
  The fields of the projection \<^verbatim>\<open>AgentPrediction\<close> that share a name with a field of the
  bet or of the agent carry the suffix \<open>_p\<close>.
\<close>

record AgentBet =
  AgentID :: int64
  Amount :: int64
  Outcome :: string
  Confidence :: real
  Reasoning :: string

record AgentPrediction =
  AgentName :: string
  Outcome_p :: string
  Amount_p :: int64
  Confidence_p :: real
  Reputation_p :: real
  Weight :: real
  Reasoning_p :: string

record SwarmBreakdown =
  YesCount :: int
  NoCount :: int
  YesWeight :: real
  NoWeight :: real
  YesAmount :: int64
  NoAmount :: int64

record SwarmConsensus =
  MarketID :: int64
  ConsensusProbability :: real
  TotalAgents :: int
  TotalBets :: int
  TotalWagered :: int64
  AverageConfidence :: real
  AverageReputation :: real
  Breakdown :: SwarmBreakdown
  TopPredictors :: "AgentPrediction list"

text \<open>The local variables of \<^verbatim>\<open>calculateSwarmConsensus\<close> that the loop over the bets updates.\<close>

record ConsensusVars =
  weightedYesSum :: real
  weightedNoSum :: real
  totalWeight :: real
  totalConfidence :: real
  totalReputation :: real
  yesCount :: int
  noCount :: int
  yesAmount :: int64
  noAmount :: int64
  topPredictors :: "AgentPrediction list"
  uniqueAgents :: "int64 set"

definition initVars :: ConsensusVars where
  "initVars =
     \<lparr>weightedYesSum = 0, weightedNoSum = 0, totalWeight = 0, totalConfidence = 0,
      totalReputation = 0, yesCount = 0, noCount = 0, yesAmount = 0, noAmount = 0,
      topPredictors = [], uniqueAgents = {}\<rparr>"

text \<open>One iteration of \<^verbatim>\<open>for _, bet := range bets\<close>.\<close>

definition betStep :: "(int64 \<rightharpoonup> Agent) \<Rightarrow> ConsensusVars \<Rightarrow> AgentBet \<Rightarrow> ConsensusVars" where
  "betStep agents v bet =
     (case agents (AgentID bet) of
        None \<Rightarrow> v
      | Some agent \<Rightarrow>
          let v1 = v\<lparr>uniqueAgents := insert (ID agent) (uniqueAgents v)\<rparr>;
              reputationWeight = Reputation agent;
              confidenceWeight = Confidence bet;
              amountWeight = ln (float64 (Amount bet) + 1) / ln 100;
              weight = reputationWeight * confidenceWeight * amountWeight;
              v2 = (if Outcome bet = ''yes'' then
                      v1\<lparr>weightedYesSum := weightedYesSum v1 + weight,
                         yesCount := yesCount v1 + 1,
                         yesAmount := yesAmount v1 + Amount bet\<rparr>
                    else
                      v1\<lparr>weightedNoSum := weightedNoSum v1 + weight,
                         noCount := noCount v1 + 1,
                         noAmount := noAmount v1 + Amount bet\<rparr>)
          in v2\<lparr>totalWeight := totalWeight v2 + weight,
                totalConfidence := totalConfidence v2 + Confidence bet,
                totalReputation := totalReputation v2 + Reputation agent,
                topPredictors := topPredictors v2 @
                  [\<lparr>AgentName = Name agent, Outcome_p = Outcome bet, Amount_p = Amount bet,
                    Confidence_p = Confidence bet, Reputation_p = Reputation agent,
                    Weight = weight, Reasoning_p = Reasoning bet\<rparr>]\<rparr>)"

fun betLoop :: "(int64 \<rightharpoonup> Agent) \<Rightarrow> ConsensusVars \<Rightarrow> AgentBet list \<Rightarrow> ConsensusVars" where
  "betLoop agents v [] = v"
| "betLoop agents v (bet # bets) = betLoop agents (betStep agents v bet) bets"

text \<open>
  The bubble sort of the top predictors: the inner loop over \<open>j\<close> for a fixed \<open>i\<close>, and
  the outer loop over \<open>i\<close>. The loop bounds are Go \<^verbatim>\<open>int\<close> expressions and may be
  negative, hence the comparison in \<open>int\<close>.
\<close>

function sortInner :: "AgentPrediction list \<Rightarrow> nat \<Rightarrow> nat \<Rightarrow> AgentPrediction list" where
  "sortInner tp i j =
     (if int j < int (length tp) - int i - 1 then
        sortInner
          (if Weight (tp ! j) < Weight (tp ! (j + 1))
           then tp[j := tp ! (j + 1), j + 1 := tp ! j] else tp)
          i (j + 1)
      else tp)"
  by pat_completeness auto
termination
  by (relation "measure (\<lambda>(tp, i, j). length tp - j)") auto

declare sortInner.simps [simp del]

function sortOuter :: "AgentPrediction list \<Rightarrow> nat \<Rightarrow> AgentPrediction list" where
  "sortOuter tp i =
     (if int i < int (length tp) - 1 then sortOuter (sortInner tp i 0) (i + 1) else tp)"
  by pat_completeness auto
termination
proof (relation "measure (\<lambda>(tp, i). length tp - i)")
  fix tp :: "AgentPrediction list" and i :: nat
  assume less: "int i < int (length tp) - 1"
  have len: "length (sortInner xs k j) = length xs" for xs k j
  proof (induction xs k j rule: sortInner.induct)
    case (1 xs k j)
    show ?case
    proof (cases "int j < int (length xs) - int k - 1")
      case True
      with "1" show ?thesis by (subst sortInner.simps) simp
    next
      case False
      then show ?thesis by (subst sortInner.simps) simp
    qed
  qed
  from less show "((sortInner tp i 0, i + 1), (tp, i)) \<in> measure (\<lambda>(tp, i). length tp - i)"
    by (simp add: len)
qed simp

declare sortOuter.simps [simp del]

definition calculateSwarmConsensus ::
    "AgentBet list \<Rightarrow> (int64 \<rightharpoonup> Agent) \<Rightarrow> SwarmConsensus" where
  "calculateSwarmConsensus bets agents =
     (if length bets = 0 then
        \<lparr>MarketID = 0, ConsensusProbability = 1/2, TotalAgents = 0, TotalBets = 0,
         TotalWagered = 0, AverageConfidence = 0, AverageReputation = 0,
         Breakdown = \<lparr>YesCount = 0, NoCount = 0, YesWeight = 0, NoWeight = 0,
                      YesAmount = 0, NoAmount = 0\<rparr>,
         TopPredictors = []\<rparr>
      else
        let v = betLoop agents initVars bets;
            consensusProbability =
              (if totalWeight v > 0 then weightedYesSum v / totalWeight v else 1/2);
            sorted = sortOuter (topPredictors v) 0;
            top = (if length sorted > 10 then take 10 sorted else sorted);
            avgConfidence =
              (if length bets > 0 then totalConfidence v / real (length bets) else 0);
            avgReputation =
              (if length bets > 0 then totalReputation v / real (length bets) else 0)
        in \<lparr>MarketID = 0,
            ConsensusProbability = consensusProbability,
            TotalAgents = int (card (uniqueAgents v)),
            TotalBets = int (length bets),
            TotalWagered = yesAmount v + noAmount v,
            AverageConfidence = avgConfidence,
            AverageReputation = avgReputation,
            Breakdown = \<lparr>YesCount = yesCount v, NoCount = noCount v,
                         YesWeight = weightedYesSum v, NoWeight = weightedNoSum v,
                         YesAmount = yesAmount v, NoAmount = noAmount v\<rparr>,
            TopPredictors = top\<rparr>)"

section \<open>The market maker (package lmsr)\<close>

record LMSR =
  B :: real

definition New :: "real \<Rightarrow> LMSR" where
  "New liquidity = \<lparr>B = (if liquidity \<le> 0 then 100 else liquidity)\<rparr>"

definition Cost :: "LMSR \<Rightarrow> real \<Rightarrow> real \<Rightarrow> real" where
  "Cost l qYes qNo =
     (let maxQ = max qYes qNo
      in B l * maxQ / B l
         + B l * ln (exp ((qYes - maxQ) / B l) + exp ((qNo - maxQ) / B l)))"

definition PriceYes :: "LMSR \<Rightarrow> real \<Rightarrow> real \<Rightarrow> real" where
  "PriceYes l qYes qNo =
     (let maxQ = max qYes qNo;
          expYes = exp ((qYes - maxQ) / B l);
          expNo = exp ((qNo - maxQ) / B l)
      in expYes / (expYes + expNo))"

definition PriceNo :: "LMSR \<Rightarrow> real \<Rightarrow> real \<Rightarrow> real" where
  "PriceNo l qYes qNo = 1 - PriceYes l qYes qNo"

definition CostToBuy :: "LMSR \<Rightarrow> real \<Rightarrow> real \<Rightarrow> real \<Rightarrow> string \<Rightarrow> real" where
  "CostToBuy l qYes qNo shares outcome =
     (let currentCost = Cost l qYes qNo;
          newCost = (if outcome = ''yes'' \<or> outcome = ''YES''
                     then Cost l (qYes + shares) qNo
                     else Cost l qYes (qNo + shares))
      in newCost - currentCost)"

definition CostToSell :: "LMSR \<Rightarrow> real \<Rightarrow> real \<Rightarrow> real \<Rightarrow> string \<Rightarrow> real" where
  "CostToSell l qYes qNo shares outcome = - CostToBuy l qYes qNo (- shares) outcome"

text \<open>
  The binary search of \<^verbatim>\<open>SharesForCost\<close>: the state of the \<^verbatim>\<open>for\<close> loop is
  \<open>(low, high, i)\<close>; the early \<^verbatim>\<open>return mid\<close> and the return after the loop are the
  two non-recursive branches.
\<close>

function searchShares ::
    "LMSR \<Rightarrow> real \<Rightarrow> real \<Rightarrow> real \<Rightarrow> string \<Rightarrow> real \<Rightarrow> real \<Rightarrow> nat \<Rightarrow> real" where
  "searchShares l qYes qNo cost outcome low high i =
     (if i < 100 then
        let mid = (low + high) / 2;
            midCost = CostToBuy l qYes qNo mid outcome
        in if \<bar>midCost - cost\<bar> < 1 / 10000 then mid
           else if midCost < cost
             then searchShares l qYes qNo cost outcome mid high (i + 1)
             else searchShares l qYes qNo cost outcome low mid (i + 1)
      else (low + high) / 2)"
  by pat_completeness auto
termination
  by (relation "measure (\<lambda>(l, qYes, qNo, cost, outcome, low, high, i). 100 - i)") auto

declare searchShares.simps [simp del]

definition SharesForCost :: "LMSR \<Rightarrow> real \<Rightarrow> real \<Rightarrow> real \<Rightarrow> string \<Rightarrow> real" where
  "SharesForCost l qYes qNo cost outcome =
     (if cost \<le> 0 then 0
      else searchShares l qYes qNo cost outcome 0 (cost * 10) 0)"

definition NewProbabilityAfterBet :: "LMSR \<Rightarrow> real \<Rightarrow> real \<Rightarrow> real \<Rightarrow> string \<Rightarrow> real" where
  "NewProbabilityAfterBet l qYes qNo amount outcome =
     (let shares = SharesForCost l qYes qNo amount outcome
      in if outcome = ''yes'' \<or> outcome = ''YES''
         then PriceYes l (qYes + shares) qNo
         else PriceYes l qYes (qNo + shares))"

definition MaxLoss :: "LMSR \<Rightarrow> real" where
  "MaxLoss l = B l * ln 2"

text \<open>
  The result of an IEEE-754 division whose divisor may be zero. \<^verbatim>\<open>SimulateBet\<close>
  divides by the share count, which is the constant \<^verbatim>\<open>0\<close> (positive zero) when
  \<^verbatim>\<open>SharesForCost\<close> returns early: a positive dividend then gives \<^verbatim>\<open>+Inf\<close>, a negative
  one \<^verbatim>\<open>-Inf\<close>, and \<^verbatim>\<open>0/0\<close> is \<^verbatim>\<open>NaN\<close>.
\<close>

datatype fval = Finite real | PosInf | NegInf | NaN

definition float_div :: "real \<Rightarrow> real \<Rightarrow> fval" where
  "float_div x y =
     (if y \<noteq> 0 then Finite (x / y)
      else if 0 < x then PosInf
      else if x < 0 then NegInf
      else NaN)"

text \<open>The field \<^verbatim>\<open>Cost\<close> of \<^verbatim>\<open>BetSimulation\<close> is \<open>Cost_s\<close>: the method \<open>Cost\<close> has the name.\<close>

record BetSimulation =
  SharesReceived :: real
  Cost_s :: real
  NewPriceYes :: real
  NewPriceNo :: real
  PriceImpact :: real
  AveragePrice :: fval
  PotentialPayout :: real

definition SimulateBet :: "LMSR \<Rightarrow> real \<Rightarrow> real \<Rightarrow> real \<Rightarrow> string \<Rightarrow> BetSimulation" where
  "SimulateBet l qYes qNo amount outcome =
     (let currentPriceYes = PriceYes l qYes qNo;
          cost = amount;
          shares = SharesForCost l qYes qNo amount outcome;
          (newQYes, newQNo) =
            (if outcome = ''yes'' \<or> outcome = ''YES''
             then (qYes + shares, qNo) else (qYes, qNo + shares));
          newPriceYes = PriceYes l newQYes newQNo
      in \<lparr>SharesReceived = shares,
          Cost_s = cost,
          NewPriceYes = newPriceYes,
          NewPriceNo = 1 - newPriceYes,
          PriceImpact = newPriceYes - currentPriceYes,
          AveragePrice = float_div cost shares,
          PotentialPayout = shares\<rparr>)"

text \<open>
  The failure policy in the words of the specification, for comparison with the code:
  a pricing call whose outcome string is outside the two-valued domain fails with
  \<open>InvalidOutcome\<close>; inside the domain it returns what \<open>CostToBuy\<close> computes. A Go call
  that returns the number \<open>v\<close> is the value \<open>Inr v\<close>.
\<close>

datatype pricing_error = InvalidOutcome

definition CostToBuy_spec ::
    "LMSR \<Rightarrow> real \<Rightarrow> real \<Rightarrow> real \<Rightarrow> string \<Rightarrow> pricing_error + real" where
  "CostToBuy_spec l qYes qNo shares outcome =
     (if outcome = ''yes'' \<or> outcome = ''YES'' \<or> outcome = ''no'' \<or> outcome = ''NO''
      then Inr (CostToBuy l qYes qNo shares outcome)
      else Inl InvalidOutcome)"

section \<open>Auxiliary definitions\<close>

text \<open>
  One pass of the inner loop, written on the list itself: neighbours are exchanged when
  the left one is strictly lighter. It is used to reason about \<open>sortInner\<close>.
\<close>
fun bubble :: "AgentPrediction list \<Rightarrow> AgentPrediction list" where
  "bubble (x # y # zs) =
     (if Weight x < Weight y then y # bubble (x # zs) else x # bubble (y # zs))"
| "bubble xs = xs"

text \<open>
  The vocabulary of the specification: the resolvable bets of a bet list, each paired
  with its agent, in input order; the weight of a resolvable bet; its projection.
\<close>
definition resolvedBets :: "AgentBet list \<Rightarrow> (int64 \<rightharpoonup> Agent) \<Rightarrow> (AgentBet \<times> Agent) list" where
  "resolvedBets bets agents =
     List.map_filter (\<lambda>bet. map_option (Pair bet) (agents (AgentID bet))) bets"

text \<open>\<open>weight = reputation \<cdot> confidence \<cdot> (ln (amount + 1) / ln 100)\<close>\<close>
definition betWeight :: "AgentBet \<times> Agent \<Rightarrow> real" where
  "betWeight ba =
     Reputation (snd ba) * Confidence (fst ba) * (ln (float64 (Amount (fst ba)) + 1) / ln 100)"

definition predictionOf :: "AgentBet \<times> Agent \<Rightarrow> AgentPrediction" where
  "predictionOf ba =
     \<lparr>AgentName = Name (snd ba), Outcome_p = Outcome (fst ba), Amount_p = Amount (fst ba),
      Confidence_p = Confidence (fst ba), Reputation_p = Reputation (snd ba),
      Weight = betWeight ba, Reasoning_p = Reasoning (fst ba)\<rparr>"

text \<open>The outcome test of the loop body.\<close>
definition onYes :: "AgentBet \<times> Agent \<Rightarrow> bool" where
  "onYes ba = (Outcome (fst ba) = ''yes'')"

text \<open>
  Concrete data for the examples below: a newly registered agent with the column
  defaults of the model, a lookup table that knows only this agent, and two bets of
  which the second names an agent that is not in the table.
\<close>
definition exampleAgent :: Agent where
  "exampleAgent =
     \<lparr>ID = 1, Name = ''alpha'', TotalPredictions = 0, CorrectPredictions = 0,
      ResolvedPredictions = 0, AccuracyScore = 50, EngagementScore = 0, CreatorScore = 0,
      ActivityScore = 0, CompositeScore = 25 / 2, Reputation = 1 / 2,
      TotalUpvotesReceived = 0, TotalDownvotesReceived = 0, TotalCommentsReceived = 0,
      TotalFollowers = 0, LastActiveAt = None, CurrentStreak = 0, LongestStreak = 0,
      DaysActiveMonth = 0, MarketsCreated = 0, MarketEngagementAvg = 0\<rparr>"

definition exampleAgents :: "int64 \<rightharpoonup> Agent" where
  "exampleAgents = [1 \<mapsto> exampleAgent]"

definition exampleBets :: "AgentBet list" where
  "exampleBets =
     [\<lparr>AgentID = 1, Amount = 100, Outcome = ''yes'', Confidence = 4 / 5, Reasoning = ''''\<rparr>,
      \<lparr>AgentID = 2, Amount = 50, Outcome = ''no'', Confidence = 2 / 5, Reasoning = ''''\<rparr>]"

text \<open>
  The zones of America/New_York around 2024: standard time (five hours west of UTC)
  until 2024-03-10 07:00 UTC, daylight time (four hours west) until 2024-11-03 06:00
  UTC, standard time after that.
\<close>
definition newYork :: Location where
  "newYork sec =
     (if sec < 1710054000
      then \<lparr>zoneOffset = - 18000, zoneStart = 1699164000, zoneEnd = 1710054000\<rparr>
      else if sec < 1730613600
      then \<lparr>zoneOffset = - 14400, zoneStart = 1710054000, zoneEnd = 1730613600\<rparr>
      else \<lparr>zoneOffset = - 18000, zoneStart = 1730613600, zoneEnd = 1741503600\<rparr>)"

text \<open>
  For positive liquidity \<open>b\<close> the cost of buying \<open>s\<close> shares of the first of two
  outcomes with outstanding quantities \<open>x\<close> and \<open>y\<close>, in closed form, and its derivative
  in \<open>s\<close> (the price after the purchase).
\<close>
definition buyCost :: "real \<Rightarrow> real \<Rightarrow> real \<Rightarrow> real \<Rightarrow> real" where
  "buyCost b x y s =
     b * ln (exp ((x + s) / b) + exp (y / b)) - b * ln (exp (x / b) + exp (y / b))"

definition priceAfter :: "real \<Rightarrow> real \<Rightarrow> real \<Rightarrow> real \<Rightarrow> real" where
  "priceAfter b x y s = exp ((x + s) / b) / (exp ((x + s) / b) + exp (y / b))"

section \<open>Properties\<close>

lemma go_int_eq_0: "go_int x = 0 \<longleftrightarrow> -1 < x \<and> x < 1"
  unfolding go_int_def by (auto simp: floor_eq_iff ceiling_eq_iff) 

lemma go_int_eq_1: "go_int x = 1 \<longleftrightarrow> 1 \<le> x \<and> x < 2"
  unfolding go_int_def by (auto simp: floor_eq_iff ceiling_eq_iff)

lemma hours_div_24: "duration_Hours d / 24 = real_of_int d / real_of_int nsPerDay"
  by (simp add: duration_Hours_def nsPerHour_def nsPerDay_def)

lemma days_of_duration_0:
  "go_int (duration_Hours d / 24) = 0 \<longleftrightarrow> - nsPerDay < d \<and> d < nsPerDay"
proof -
  have "real_of_int d / real_of_int nsPerDay < 1 \<longleftrightarrow> d < nsPerDay"
    by (simp add: nsPerDay_def)
  moreover have "-1 < real_of_int d / real_of_int nsPerDay \<longleftrightarrow> - nsPerDay < d"
  proof -
    have "- 86400000000000 < real_of_int d \<longleftrightarrow> real_of_int (- 86400000000000) < real_of_int d"
      by simp
    also have "\<dots> \<longleftrightarrow> - 86400000000000 < d" by (rule of_int_less_iff)
    finally show ?thesis by (simp add: nsPerDay_def pos_less_divide_eq)
  qed
  ultimately show ?thesis by (simp add: go_int_eq_0 hours_div_24)
qed

lemma days_of_duration_1:
  "go_int (duration_Hours d / 24) = 1 \<longleftrightarrow> nsPerDay \<le> d \<and> d < 2 * nsPerDay"
proof -
  have "real_of_int d / real_of_int nsPerDay < 2 \<longleftrightarrow> d < 2 * nsPerDay"
    by (simp add: nsPerDay_def pos_divide_less_eq)
  moreover have "1 \<le> real_of_int d / real_of_int nsPerDay \<longleftrightarrow> nsPerDay \<le> d"
    by (simp add: nsPerDay_def pos_le_divide_eq)
  ultimately show ?thesis by (simp add: go_int_eq_1 hours_div_24)
qed

lemma startOfDay_FixedZone:
  "location t = FixedZone off \<Longrightarrow>
   unixNano (startOfDay t) = (civilDay t * 86400 - off) * 1000000000"
  by (simp add: startOfDay_def dateMidnight_def FixedZone_def Let_def)

lemma midnight_diff:
  assumes "location now = FixedZone off" and "location t = FixedZone off"
  shows "unixNano (startOfDay now) - unixNano (startOfDay t)
           = (civilDay now - civilDay t) * nsPerDay"
  by (simp add: startOfDay_FixedZone[OF assms(1)] startOfDay_FixedZone[OF assms(2)]
        nsPerDay_def algebra_simps)

lemma daysDiff_0:
  assumes "location now = FixedZone off" and "location t = FixedZone off"
  shows "go_int (duration_Hours (time_Sub (startOfDay now) (startOfDay t)) / 24) = 0
           \<longleftrightarrow> civilDay now = civilDay t"
  unfolding days_of_duration_0 time_Sub_def Let_def midnight_diff[OF assms]
  by (auto simp: nsPerDay_def)

lemma daysDiff_1:
  assumes "location now = FixedZone off" and "location t = FixedZone off"
  shows "go_int (duration_Hours (time_Sub (startOfDay now) (startOfDay t)) / 24) = 1
           \<longleftrightarrow> civilDay now = civilDay t + 1"
  unfolding days_of_duration_1 time_Sub_def Let_def midnight_diff[OF assms]
  by (auto simp: nsPerDay_def)

lemma float64_nonneg: "0 \<le> sint x \<Longrightarrow> 0 \<le> float64 x"
  unfolding float64_def by (simp only: of_int_0_le_iff)

lemma float64_mono: "sint x \<le> sint y \<Longrightarrow> float64 x \<le> float64 y"
  unfolding float64_def by (simp only: of_int_le_iff)

lemma float64_pos: "0 \<le> sint x \<Longrightarrow> x \<noteq> 0 \<Longrightarrow> 0 < float64 x"
proof -
  assume a: "0 \<le> sint x" "x \<noteq> 0"
  then have "sint x \<noteq> 0" by (metis sint_0 signed_eq_0_iff)
  with a have "0 < sint x" by simp
  then show ?thesis unfolding float64_def by (simp only: of_int_0_less_iff)
qed

lemma accuracy_bounds:
  assumes "0 \<le> sint (CorrectPredictions a)"
      and "sint (CorrectPredictions a) \<le> sint (ResolvedPredictions a)"
  shows "0 \<le> AccuracyScore (RecalculateAccuracyScore a)"
    and "AccuracyScore (RecalculateAccuracyScore a) \<le> 100"
proof -
  let ?r = "float64 (ResolvedPredictions a)" and ?c = "float64 (CorrectPredictions a)"
  have c0: "0 \<le> ?c" and cr: "?c \<le> ?r" using assms by (simp_all add: float64_nonneg float64_mono)
  show "0 \<le> AccuracyScore (RecalculateAccuracyScore a)"
    using c0 cr by (simp add: RecalculateAccuracyScore_def Let_def)
  show "AccuracyScore (RecalculateAccuracyScore a) \<le> 100"
  proof (cases "ResolvedPredictions a = 0")
    case True then show ?thesis by (simp add: RecalculateAccuracyScore_def)
  next
    case False
    have "0 \<le> sint (ResolvedPredictions a)" using assms by simp
    then have rpos: "0 < ?r" using False by (rule float64_pos)
    have "?c / ?r * 100 * ?r + 50 * 10 \<le> 100 * (?r + 10)"
      using rpos cr by simp
    then show ?thesis using False rpos
      by (simp add: RecalculateAccuracyScore_def Let_def pos_divide_le_eq)
  qed
qed

lemma engagement_bounds:
  "0 \<le> EngagementScore (RecalculateEngagementScore a)"
  "EngagementScore (RecalculateEngagementScore a) \<le> 100"
  by (simp_all add: RecalculateEngagementScore_def Let_def)

lemma activity_bounds:
  assumes "0 \<le> sint (DaysActiveMonth a)" "0 \<le> sint (CurrentStreak a)"
  shows "0 \<le> ActivityScore (RecalculateActivityScore a)"
  "ActivityScore (RecalculateActivityScore a) \<le> 100"
proof -
  have d: "0 \<le> float64 (DaysActiveMonth a)" and s: "0 \<le> float64 (CurrentStreak a)"
    using assms by (simp_all add: float64_nonneg)
  have "0 \<le> min (1/2) (float64 (CurrentStreak a) / 60)" using s by simp
  then have "0 \<le> float64 (DaysActiveMonth a) / 30 * 100 * (1 + min (1/2) (float64 (CurrentStreak a) / 60))"
    using d by (intro mult_nonneg_nonneg) simp_all
  then show "0 \<le> ActivityScore (RecalculateActivityScore a)"
    by (simp add: RecalculateActivityScore_def Let_def)
  show "ActivityScore (RecalculateActivityScore a) \<le> 100"
    by (simp add: RecalculateActivityScore_def Let_def)
qed

lemma creator_bounds:
  assumes "0 \<le> sint (MarketsCreated a)" "0 \<le> MarketEngagementAvg a"
  shows "0 \<le> CreatorScore (RecalculateCreatorScore a)"
  "CreatorScore (RecalculateCreatorScore a) \<le> 100"
proof -
  have "0 \<le> float64 (MarketsCreated a)" using assms by (simp add: float64_nonneg)
  then have "0 \<le> MarketEngagementAvg a * (1/2) + float64 (MarketsCreated a) * 2"
    using assms(2) by simp
  then show "0 \<le> CreatorScore (RecalculateCreatorScore a)"
    by (simp add: RecalculateCreatorScore_def Let_def)
  show "CreatorScore (RecalculateCreatorScore a) \<le> 100"
    by (simp add: RecalculateCreatorScore_def Let_def)
qed

lemma Recalc_fields [simp]:
  "CorrectPredictions (RecalculateAccuracyScore a) = CorrectPredictions a"
  "ResolvedPredictions (RecalculateAccuracyScore a) = ResolvedPredictions a"
  "DaysActiveMonth (RecalculateAccuracyScore a) = DaysActiveMonth a"
  "CurrentStreak (RecalculateAccuracyScore a) = CurrentStreak a"
  "MarketsCreated (RecalculateAccuracyScore a) = MarketsCreated a"
  "MarketEngagementAvg (RecalculateAccuracyScore a) = MarketEngagementAvg a"
  "DaysActiveMonth (RecalculateEngagementScore a) = DaysActiveMonth a"
  "CurrentStreak (RecalculateEngagementScore a) = CurrentStreak a"
  "MarketsCreated (RecalculateEngagementScore a) = MarketsCreated a"
  "MarketEngagementAvg (RecalculateEngagementScore a) = MarketEngagementAvg a"
  "AccuracyScore (RecalculateEngagementScore a) = AccuracyScore a"
  "MarketsCreated (RecalculateActivityScore a) = MarketsCreated a"
  "MarketEngagementAvg (RecalculateActivityScore a) = MarketEngagementAvg a"
  "AccuracyScore (RecalculateActivityScore a) = AccuracyScore a"
  "EngagementScore (RecalculateActivityScore a) = EngagementScore a"
  "AccuracyScore (RecalculateCreatorScore a) = AccuracyScore a"
  "EngagementScore (RecalculateCreatorScore a) = EngagementScore a"
  "ActivityScore (RecalculateCreatorScore a) = ActivityScore a"
  by (simp_all add: RecalculateAccuracyScore_def RecalculateEngagementScore_def
        RecalculateActivityScore_def RecalculateCreatorScore_def Let_def)

lemma AllScores_fields:
  "AccuracyScore (RecalculateAllScores a) = AccuracyScore (RecalculateAccuracyScore a)"
  "EngagementScore (RecalculateAllScores a) = EngagementScore (RecalculateEngagementScore (RecalculateAccuracyScore a))"
  "ActivityScore (RecalculateAllScores a) = ActivityScore (RecalculateActivityScore (RecalculateEngagementScore (RecalculateAccuracyScore a)))"
  "CreatorScore (RecalculateAllScores a) = CreatorScore (RecalculateCreatorScore (RecalculateActivityScore (RecalculateEngagementScore (RecalculateAccuracyScore a))))"
  "CompositeScore (RecalculateAllScores a) =
     AccuracyScore (RecalculateAllScores a) * (40/100) + EngagementScore (RecalculateAllScores a) * (25/100)
     + CreatorScore (RecalculateAllScores a) * (20/100) + ActivityScore (RecalculateAllScores a) * (15/100)"
  by (simp_all add: RecalculateAllScores_def RecalculateCompositeScore_def Let_def)

text \<open>
  Claim C9. With non-negative counters and no more correct than resolved predictions,
  every score lies in \<open>[0, 100]\<close> after \<open>RecalculateAllScores\<close>, and the composite
  score is \<open>0.40 \<cdot> accuracy + 0.25 \<cdot> engagement + 0.20 \<cdot> creator + 0.15 \<cdot> activity\<close>.
\<close>
theorem RecalculateAllScores_bounded:
  assumes "0 \<le> sint (CorrectPredictions a)"
      and "sint (CorrectPredictions a) \<le> sint (ResolvedPredictions a)"
      and "0 \<le> sint (DaysActiveMonth a)" and "0 \<le> sint (CurrentStreak a)"
      and "0 \<le> sint (MarketsCreated a)" and "0 \<le> MarketEngagementAvg a"
  shows "(let a' = RecalculateAllScores a in
          (0 \<le> AccuracyScore a' \<and> AccuracyScore a' \<le> 100) \<and>
          (0 \<le> EngagementScore a' \<and> EngagementScore a' \<le> 100) \<and>
          (0 \<le> ActivityScore a' \<and> ActivityScore a' \<le> 100) \<and>
          (0 \<le> CreatorScore a' \<and> CreatorScore a' \<le> 100) \<and>
          (0 \<le> CompositeScore a' \<and> CompositeScore a' \<le> 100) \<and>
          CompositeScore a' =
            0.40 * AccuracyScore a' + 0.25 * EngagementScore a'
            + 0.20 * CreatorScore a' + 0.15 * ActivityScore a')"
proof -
  let ?a' = "RecalculateAllScores a"
  have acc: "0 \<le> AccuracyScore ?a'" "AccuracyScore ?a' \<le> 100"
    using accuracy_bounds[OF assms(1,2)] by (simp_all add: AllScores_fields)
  have eng: "0 \<le> EngagementScore ?a'" "EngagementScore ?a' \<le> 100"
    using engagement_bounds by (simp_all add: AllScores_fields)
  have act: "0 \<le> ActivityScore ?a'" "ActivityScore ?a' \<le> 100"
    using activity_bounds[of "RecalculateEngagementScore (RecalculateAccuracyScore a)"] assms(3,4)
    by (simp_all add: AllScores_fields)
  have cre: "0 \<le> CreatorScore ?a'" "CreatorScore ?a' \<le> 100"
    using creator_bounds[of "RecalculateActivityScore (RecalculateEngagementScore (RecalculateAccuracyScore a))"] assms(5,6)
    by (simp_all add: AllScores_fields)
  have comp: "CompositeScore ?a' =
            0.40 * AccuracyScore ?a' + 0.25 * EngagementScore ?a'
            + 0.20 * CreatorScore ?a' + 0.15 * ActivityScore ?a'"
    by (simp add: AllScores_fields(5))
  have "0 \<le> CompositeScore ?a'" "CompositeScore ?a' \<le> 100"
    using acc eng act cre unfolding comp by simp_all
  with acc eng act cre comp show ?thesis unfolding Let_def by blast
qed

lemma sortInner_bubble:
  "length pre = j \<Longrightarrow> length suf = i \<Longrightarrow>
   sortInner (pre @ mid @ suf) i j = pre @ bubble mid @ suf"
proof (induction mid arbitrary: pre j rule: bubble.induct)
  case (1 x y zs)
  have cond: "int j < int (length (pre @ (x # y # zs) @ suf)) - int i - 1"
    using "1.prems" by simp
  have nj: "(pre @ (x # y # zs) @ suf) ! j = x" and nj1: "(pre @ (x # y # zs) @ suf) ! (j + 1) = y"
    using "1.prems" by (simp_all add: nth_append)
  show ?case
  proof (cases "Weight x < Weight y")
    case True
    have upd: "(pre @ (x # y # zs) @ suf)[j := y, j + 1 := x] = (pre @ [y]) @ (x # zs) @ suf"
      using "1.prems" by (simp add: list_update_append)
    have "sortInner (pre @ (x # y # zs) @ suf) i j
            = sortInner ((pre @ [y]) @ (x # zs) @ suf) i (j + 1)"
      by (subst sortInner.simps) (simp only: cond nj nj1 True if_True upd)
    also have "\<dots> = (pre @ [y]) @ bubble (x # zs) @ suf"
      using "1.prems" by (intro "1.IH"(1)[OF True]) simp_all
    finally show ?thesis using True by simp
  next
    case False
    have "sortInner (pre @ (x # y # zs) @ suf) i j
            = sortInner ((pre @ [x]) @ (y # zs) @ suf) i (j + 1)"
      by (subst sortInner.simps) (simp only: cond nj nj1 False if_True if_False, simp)
    also have "\<dots> = (pre @ [x]) @ bubble (y # zs) @ suf"
      using "1.prems" by (intro "1.IH"(2)[OF False]) simp_all
    finally show ?thesis using False by simp
  qed
qed (subst sortInner.simps, simp)+

lemma mset_bubble: "mset (bubble xs) = mset xs"
  by (induction xs rule: bubble.induct) auto

lemma set_bubble: "set (bubble xs) = set xs"
  using mset_bubble by (metis set_mset_mset)

lemma length_bubble: "length (bubble xs) = length xs"
  using mset_bubble by (metis size_mset)

lemma filter_bubble:
  "filter (\<lambda>p. Weight p = w) (bubble xs) = filter (\<lambda>p. Weight p = w) xs"
  by (induction xs rule: bubble.induct) auto

lemma bubble_Nil_iff: "bubble xs = [] \<longleftrightarrow> xs = []"
  using length_bubble by (metis length_0_conv)

lemma last_bubble_min:
  "xs \<noteq> [] \<Longrightarrow> x \<in> set xs \<Longrightarrow> Weight (last (bubble xs)) \<le> Weight x"
proof (induction xs arbitrary: x rule: bubble.induct)
  case (1 a b zs)
  show ?case
  proof (cases "Weight a < Weight b")
    case True
    have ne: "bubble (a # zs) \<noteq> []" by (simp add: bubble_Nil_iff)
    have l: "last (bubble (a # b # zs)) = last (bubble (a # zs))" using True ne by simp
    have "Weight (last (bubble (a # zs))) \<le> Weight y" if "y \<in> set (a # zs)" for y
      using "1.IH"(1)[OF True _ that] by simp
    then show ?thesis using "1.prems" True unfolding l
      by (metis insert_iff list.simps(15) less_le_not_le order_trans linear)
  next
    case False
    have ne: "bubble (b # zs) \<noteq> []" by (simp add: bubble_Nil_iff)
    have l: "last (bubble (a # b # zs)) = last (bubble (b # zs))" using False ne by simp
    have "Weight (last (bubble (b # zs))) \<le> Weight y" if "y \<in> set (b # zs)" for y
      using "1.IH"(2)[OF False _ that] by simp
    then show ?thesis using "1.prems" False unfolding l
      by (metis insert_iff list.simps(15) not_less order_trans)
  qed
qed simp_all

lemma sortOuter_pass:
  assumes "int i < int (length tp) - 1"
  shows "sortInner tp i 0 = bubble (take (length tp - i) tp) @ drop (length tp - i) tp"
proof -
  have "sortInner ([] @ take (length tp - i) tp @ drop (length tp - i) tp) i 0
          = [] @ bubble (take (length tp - i) tp) @ drop (length tp - i) tp"
    using assms by (intro sortInner_bubble) simp_all
  then show ?thesis by simp
qed

lemma mset_sortOuter: "mset (sortOuter tp i) = mset tp"
proof (induction tp i rule: sortOuter.induct)
  case (1 tp i)
  show ?case
  proof (cases "int i < int (length tp) - 1")
    case True
    have "mset (sortInner tp i 0) = mset (take (length tp - i) tp) + mset (drop (length tp - i) tp)"
      by (simp add: sortOuter_pass[OF True] mset_bubble)
    also have "\<dots> = mset tp" by (metis append_take_drop_id mset_append)
    finally show ?thesis using "1.IH"[OF True] True by (subst sortOuter.simps) simp
  next
    case False
    then show ?thesis by (subst sortOuter.simps) simp
  qed
qed

lemma filter_sortOuter:
  "filter (\<lambda>p. Weight p = w) (sortOuter tp i) = filter (\<lambda>p. Weight p = w) tp"
proof (induction tp i rule: sortOuter.induct)
  case (1 tp i)
  show ?case
  proof (cases "int i < int (length tp) - 1")
    case True
    have "filter (\<lambda>p. Weight p = w) (sortInner tp i 0)
            = filter (\<lambda>p. Weight p = w) (take (length tp - i) tp)
              @ filter (\<lambda>p. Weight p = w) (drop (length tp - i) tp)"
      by (simp add: sortOuter_pass[OF True] filter_bubble)
    also have "\<dots> = filter (\<lambda>p. Weight p = w) tp"
      by (metis filter_append append_take_drop_id)
    finally show ?thesis using "1.IH"[OF True] True by (subst sortOuter.simps) simp
  next
    case False
    then show ?thesis by (subst sortOuter.simps) simp
  qed
qed

lemma sorted_sortOuter_aux:
  "length p = n \<Longrightarrow> sorted_wrt (\<lambda>a b. Weight b \<le> Weight a) s \<Longrightarrow>
   (\<forall>x \<in> set p. \<forall>y \<in> set s. Weight y \<le> Weight x) \<Longrightarrow>
   sorted_wrt (\<lambda>a b. Weight b \<le> Weight a) (sortOuter (p @ s) (length s))"
proof (induction n arbitrary: p s)
  case 0
  then show ?case by (subst sortOuter.simps) simp
next
  case (Suc n)
  show ?case
  proof (cases "int (length s) < int (length (p @ s)) - 1")
    case False
    then have "length p \<le> 1" by simp
    then obtain x where "p = [x]" using Suc.prems(1) by (cases p) auto
    then have "sorted_wrt (\<lambda>a b. Weight b \<le> Weight a) (p @ s)"
      using Suc.prems by simp
    then show ?thesis using False by (subst sortOuter.simps) simp
  next
    case True
    let ?b = "bubble p"
    have pne: "p \<noteq> []" using Suc.prems(1) by auto
    have bne: "?b \<noteq> []" using pne by (simp add: bubble_Nil_iff)
    have pass: "sortInner (p @ s) (length s) 0 = ?b @ s"
      using sortInner_bubble[of "[]" 0 s "length s" p] by simp
    have split: "?b @ s = butlast ?b @ (last ?b # s)"
      using bne by (metis append_butlast_last_id append.assoc append_Cons append_Nil)
    have step: "sortOuter (p @ s) (length s)
                  = sortOuter (butlast ?b @ (last ?b # s)) (length (last ?b # s))"
      using True by (subst sortOuter.simps) (simp add: pass split)
    have len: "length (butlast ?b) = n"
      using Suc.prems(1) by (simp add: length_bubble)
    have lastin: "last ?b \<in> set p" using bne set_bubble last_in_set by metis
    have bl: "set (butlast ?b) \<subseteq> set p"
      using set_bubble by (metis in_set_butlastD subsetI)
    have s1: "sorted_wrt (\<lambda>a b. Weight b \<le> Weight a) (last ?b # s)"
      using Suc.prems(2,3) lastin by simp
    have s2: "\<forall>x \<in> set (butlast ?b). \<forall>y \<in> set (last ?b # s). Weight y \<le> Weight x"
      using bl Suc.prems(3) last_bubble_min[OF pne] by auto
    show ?thesis unfolding step by (rule Suc.IH[OF len s1 s2])
  qed
qed

lemma sorted_sortOuter: "sorted_wrt (\<lambda>a b. Weight b \<le> Weight a) (sortOuter tp 0)"
  using sorted_sortOuter_aux[of tp "length tp" "[]"] by simp

lemma resolvedBets_Nil [simp]: "resolvedBets [] agents = []"
  by (simp add: resolvedBets_def map_filter_simps)

lemma resolvedBets_Cons:
  "resolvedBets (bet # bets) agents =
     (case agents (AgentID bet) of None \<Rightarrow> resolvedBets bets agents
      | Some agent \<Rightarrow> (bet, agent) # resolvedBets bets agents)"
  by (simp add: resolvedBets_def map_filter_simps split: option.splits)

lemma betLoop_fields:
  "weightedYesSum (betLoop agents v bets) =
     weightedYesSum v + sum_list (map betWeight (filter onYes (resolvedBets bets agents)))"
  "weightedNoSum (betLoop agents v bets) =
     weightedNoSum v + sum_list (map betWeight (filter (\<lambda>ba. \<not> onYes ba) (resolvedBets bets agents)))"
  "totalWeight (betLoop agents v bets) =
     totalWeight v + sum_list (map betWeight (resolvedBets bets agents))"
  "totalConfidence (betLoop agents v bets) =
     totalConfidence v + sum_list (map (\<lambda>ba. Confidence (fst ba)) (resolvedBets bets agents))"
  "totalReputation (betLoop agents v bets) =
     totalReputation v + sum_list (map (\<lambda>ba. Reputation (snd ba)) (resolvedBets bets agents))"
  "yesCount (betLoop agents v bets) =
     yesCount v + int (length (filter onYes (resolvedBets bets agents)))"
  "noCount (betLoop agents v bets) =
     noCount v + int (length (filter (\<lambda>ba. \<not> onYes ba) (resolvedBets bets agents)))"
  "yesAmount (betLoop agents v bets) =
     yesAmount v + sum_list (map (\<lambda>ba. Amount (fst ba)) (filter onYes (resolvedBets bets agents)))"
  "noAmount (betLoop agents v bets) =
     noAmount v + sum_list (map (\<lambda>ba. Amount (fst ba)) (filter (\<lambda>ba. \<not> onYes ba) (resolvedBets bets agents)))"
  "topPredictors (betLoop agents v bets) =
     topPredictors v @ map predictionOf (resolvedBets bets agents)"
  "uniqueAgents (betLoop agents v bets) =
     uniqueAgents v \<union> set (map (\<lambda>ba. ID (snd ba)) (resolvedBets bets agents))"
  by (induction bets arbitrary: v;
      simp add: resolvedBets_Cons betStep_def Let_def betWeight_def predictionOf_def onYes_def
           split: option.splits)+

lemma resolved_example:
  "resolvedBets exampleBets exampleAgents = [(hd exampleBets, exampleAgent)]"
  by (simp add: resolvedBets_Cons exampleBets_def exampleAgents_def)

lemma consensus_fields:
  "bets \<noteq> [] \<Longrightarrow> AverageConfidence (calculateSwarmConsensus bets agents) =
     sum_list (map (\<lambda>ba. Confidence (fst ba)) (resolvedBets bets agents)) / real (length bets)"
  "bets \<noteq> [] \<Longrightarrow> AverageReputation (calculateSwarmConsensus bets agents) =
     sum_list (map (\<lambda>ba. Reputation (snd ba)) (resolvedBets bets agents)) / real (length bets)"
  by (simp_all add: calculateSwarmConsensus_def Let_def betLoop_fields initVars_def)

text \<open>
  Claim C2. The averages are said to be means over exactly the resolvable bets. The
  code sums confidence and reputation over the resolvable bets but divides by
  \<^verbatim>\<open>len(bets)\<close>, which counts the orphaned bets too. With one resolvable bet of
  confidence \<open>4/5\<close> (agent reputation \<open>1/2\<close>) and one orphaned bet, the code reports
  \<open>2/5\<close> and \<open>1/4\<close> where the means over the resolvable bets are \<open>4/5\<close> and \<open>1/2\<close>.
\<close>
theorem averages_divide_by_all_bets:
  "map (\<lambda>ba. Confidence (fst ba)) (resolvedBets exampleBets exampleAgents) = [4 / 5] \<and>
   map (\<lambda>ba. Reputation (snd ba)) (resolvedBets exampleBets exampleAgents) = [1 / 2] \<and>
   AverageConfidence (calculateSwarmConsensus exampleBets exampleAgents) = 2 / 5 \<and>
   AverageReputation (calculateSwarmConsensus exampleBets exampleAgents) = 1 / 4"
proof -
  have ne: "exampleBets \<noteq> []" by (simp add: exampleBets_def)
  have r: "resolvedBets exampleBets exampleAgents = [(hd exampleBets, exampleAgent)]"
    by (rule resolved_example)
  show ?thesis
    unfolding consensus_fields[OF ne] r
    by (simp add: exampleBets_def exampleAgent_def)
qed

lemma betWeight_nonneg:
  assumes "0 \<le> Reputation (snd ba)" "0 \<le> Confidence (fst ba)" "0 \<le> sint (Amount (fst ba))"
  shows "0 \<le> betWeight ba"
proof -
  have "0 \<le> float64 (Amount (fst ba))" using assms(3) by (rule float64_nonneg)
  then have "0 \<le> ln (float64 (Amount (fst ba)) + 1)" by simp
  then have "0 \<le> ln (float64 (Amount (fst ba)) + 1) / ln 100" by simp
  moreover have "0 \<le> Reputation (snd ba) * Confidence (fst ba)"
    using assms(1,2) by simp
  ultimately show ?thesis unfolding betWeight_def by (rule mult_nonneg_nonneg[rotated])
qed

lemma sum_list_filter_split:
  "sum_list (map f xs) = sum_list (map f (filter P xs)) + sum_list (map f (filter (\<lambda>x. \<not> P x) xs))"
  for f :: "'a \<Rightarrow> real"
  by (induction xs) auto

text \<open>
  Claim C4. An empty bet list gives the neutral report: probability \<open>1/2\<close>, no agents,
  no bets. For a non-empty list whose resolvable bets have non-negative reputation,
  confidence and amount (the domain of the data model), the YES and NO weights are the
  sums of \<open>reputation \<cdot> confidence \<cdot> (ln (amount + 1) / ln 100)\<close> over the resolvable
  bets of each side, and the consensus probability is \<open>Y / (Y + N)\<close>, or \<open>1/2\<close> when the
  total weight is zero.
\<close>
theorem consensus_probability_weighted:
  "(let r = calculateSwarmConsensus bets agents;
        rs = resolvedBets bets agents;
        Y = (\<Sum>ba\<leftarrow>filter (\<lambda>ba. Outcome (fst ba) = ''yes'') rs. betWeight ba);
        N = (\<Sum>ba\<leftarrow>filter (\<lambda>ba. Outcome (fst ba) \<noteq> ''yes'') rs. betWeight ba)
    in (bets = [] \<longrightarrow>
          ConsensusProbability r = 1 / 2 \<and> TotalAgents r = 0 \<and> TotalBets r = 0) \<and>
       (bets \<noteq> [] \<and>
        (\<forall>ba \<in> set rs. 0 \<le> Reputation (snd ba) \<and> 0 \<le> Confidence (fst ba)
                          \<and> 0 \<le> sint (Amount (fst ba))) \<longrightarrow>
          YesWeight (Breakdown r) = Y \<and> NoWeight (Breakdown r) = N \<and>
          ConsensusProbability r = (if Y + N = 0 then 1 / 2 else Y / (Y + N))))"
proof -
  let ?rs = "resolvedBets bets agents"
  let ?Y = "\<Sum>ba\<leftarrow>filter (\<lambda>ba. Outcome (fst ba) = ''yes'') ?rs. betWeight ba"
  let ?N = "\<Sum>ba\<leftarrow>filter (\<lambda>ba. Outcome (fst ba) \<noteq> ''yes'') ?rs. betWeight ba"
  let ?r = "calculateSwarmConsensus bets agents"
  have empty: "bets = [] \<Longrightarrow>
      ConsensusProbability ?r = 1 / 2 \<and> TotalAgents ?r = 0 \<and> TotalBets ?r = 0"
    by (simp add: calculateSwarmConsensus_def)
  have yes: "onYes = (\<lambda>ba. Outcome (fst ba) = ''yes'')" by (rule ext) (simp add: onYes_def)
  have tot: "sum_list (map betWeight ?rs) = ?Y + ?N"
    by (rule sum_list_filter_split)
  have Yw: "bets \<noteq> [] \<Longrightarrow> YesWeight (Breakdown ?r) = ?Y"
    by (simp add: calculateSwarmConsensus_def Let_def betLoop_fields initVars_def yes)
  have Nw: "bets \<noteq> [] \<Longrightarrow> NoWeight (Breakdown ?r) = ?N"
    by (simp add: calculateSwarmConsensus_def Let_def betLoop_fields initVars_def yes)
  have cp: "bets \<noteq> [] \<Longrightarrow> ConsensusProbability ?r =
              (if ?Y + ?N > 0 then ?Y / (?Y + ?N) else 1 / 2)"
    by (simp add: calculateSwarmConsensus_def Let_def betLoop_fields initVars_def yes tot)
  have nonneg: "0 \<le> ?Y + ?N"
    if "\<forall>ba \<in> set ?rs. 0 \<le> Reputation (snd ba) \<and> 0 \<le> Confidence (fst ba)
                          \<and> 0 \<le> sint (Amount (fst ba))"
  proof -
    have "0 \<le> sum_list (map betWeight ?rs)"
      using that by (intro sum_list_nonneg) (auto intro: betWeight_nonneg)
    then show ?thesis by (simp only: tot)
  qed
  show ?thesis
    unfolding Let_def using empty Yw Nw cp nonneg
    by (smt (verit, best))
qed

theorem consensus_probability_weighted_witness:
  "(let r = calculateSwarmConsensus [] exampleAgents
    in ConsensusProbability r = 1 / 2 \<and> TotalAgents r = 0 \<and> TotalBets r = 0) \<and>
   exampleBets \<noteq> [] \<and>
   resolvedBets exampleBets exampleAgents = [(hd exampleBets, exampleAgent)] \<and>
   0 \<le> Reputation exampleAgent \<and> 0 \<le> Confidence (hd exampleBets) \<and>
   0 \<le> sint (Amount (hd exampleBets)) \<and>
   ConsensusProbability (calculateSwarmConsensus exampleBets exampleAgents) = 1"
proof -
  have r: "resolvedBets exampleBets exampleAgents = [(hd exampleBets, exampleAgent)]"
    by (rule resolved_example)
  have ne: "exampleBets \<noteq> []" by (simp add: exampleBets_def)
  have dom: "\<forall>ba \<in> set (resolvedBets exampleBets exampleAgents).
       0 \<le> Reputation (snd ba) \<and> 0 \<le> Confidence (fst ba) \<and> 0 \<le> sint (Amount (fst ba))"
    unfolding r by (simp add: exampleBets_def exampleAgent_def)
  have w: "betWeight (hd exampleBets, exampleAgent) \<noteq> 0"
    by (simp add: betWeight_def exampleBets_def exampleAgent_def float64_def)
  have e: "ConsensusProbability (calculateSwarmConsensus exampleBets exampleAgents) = 1"
    using consensus_probability_weighted[of exampleBets exampleAgents] ne dom w
    unfolding Let_def r by (simp add: exampleBets_def)
  have dom': "0 \<le> Reputation exampleAgent \<and> 0 \<le> Confidence (hd exampleBets) \<and>
              0 \<le> sint (Amount (hd exampleBets))"
    using dom unfolding r by simp
  show ?thesis
    using consensus_probability_weighted[of "[]" exampleAgents] ne r dom' e
    unfolding Let_def by simp
qed

text \<open>
  Claim C5. The top predictors are the first ten entries of the sorted projections of
  the resolvable bets, where the sorted list is in descending order of weight, is a
  permutation of the projections, and keeps the entries of any one weight in their
  input order (the sort is stable).
\<close>
theorem top_predictors_sorted_stable_top10:
  "(let r = calculateSwarmConsensus bets agents;
        ps = map predictionOf (resolvedBets bets agents);
        sorted = sortOuter ps 0
    in TopPredictors r = take 10 sorted \<and>
       length (TopPredictors r) \<le> 10 \<and>
       sorted_wrt (\<lambda>p q. Weight q \<le> Weight p) sorted \<and>
       mset sorted = mset ps \<and>
       (\<forall>w. filter (\<lambda>p. Weight p = w) sorted = filter (\<lambda>p. Weight p = w) ps))"
proof -
  let ?ps = "map predictionOf (resolvedBets bets agents)"
  have top: "TopPredictors (calculateSwarmConsensus bets agents) = take 10 (sortOuter ?ps 0)"
  proof (cases "bets = []")
    case True
    have "sortOuter [] 0 = []" by (subst sortOuter.simps) simp
    then show ?thesis using True by (simp add: calculateSwarmConsensus_def)
  next
    case False
    then show ?thesis
      by (simp add: calculateSwarmConsensus_def Let_def betLoop_fields initVars_def)
  qed
  show ?thesis
    unfolding Let_def top
    by (simp add: sorted_sortOuter mset_sortOuter filter_sortOuter)
qed

text \<open>
  Claim C10. A resolvable bet is counted on the YES side (count, amount, weight) exactly
  when its outcome is the string \<open>''yes''\<close>; every other outcome string, the upper-case
  \<open>''YES''\<close> included, is counted on the NO side.
\<close>
theorem outcome_test_case_sensitive:
  "(let r = calculateSwarmConsensus bets agents;
        yes = filter (\<lambda>ba. Outcome (fst ba) = ''yes'') (resolvedBets bets agents);
        no = filter (\<lambda>ba. Outcome (fst ba) \<noteq> ''yes'') (resolvedBets bets agents)
    in YesCount (Breakdown r) = int (length yes) \<and>
       NoCount (Breakdown r) = int (length no) \<and>
       YesAmount (Breakdown r) = (\<Sum>ba\<leftarrow>yes. Amount (fst ba)) \<and>
       NoAmount (Breakdown r) = (\<Sum>ba\<leftarrow>no. Amount (fst ba)) \<and>
       YesWeight (Breakdown r) = (\<Sum>ba\<leftarrow>yes. betWeight ba) \<and>
       NoWeight (Breakdown r) = (\<Sum>ba\<leftarrow>no. betWeight ba))"
proof (cases "bets = []")
  case True
  then show ?thesis by (simp add: calculateSwarmConsensus_def)
next
  case False
  have yes: "onYes = (\<lambda>ba. Outcome (fst ba) = ''yes'')" by (rule ext) (simp add: onYes_def)
  show ?thesis using False
    by (simp add: calculateSwarmConsensus_def Let_def betLoop_fields initVars_def yes)
qed

theorem outcome_test_case_sensitive_witness:
  "(let r = calculateSwarmConsensus
              [\<lparr>AgentID = 1, Amount = 100, Outcome = ''YES'', Confidence = 4 / 5, Reasoning = ''''\<rparr>,
               \<lparr>AgentID = 1, Amount = 7, Outcome = ''yes'', Confidence = 1 / 5, Reasoning = ''''\<rparr>]
              exampleAgents
    in YesCount (Breakdown r) = 1 \<and> NoCount (Breakdown r) = 1 \<and>
       YesAmount (Breakdown r) = 7 \<and> NoAmount (Breakdown r) = 100)"
  using outcome_test_case_sensitive
          [of "[\<lparr>AgentID = 1, Amount = 100, Outcome = ''YES'', Confidence = 4 / 5, Reasoning = ''''\<rparr>,
               \<lparr>AgentID = 1, Amount = 7, Outcome = ''yes'', Confidence = 1 / 5, Reasoning = ''''\<rparr>]"
              exampleAgents]
  by (simp add: Let_def resolvedBets_Cons exampleAgents_def)

text \<open>
  Claim C6. The accuracy score is \<open>50\<close> when no prediction is resolved, and otherwise
  \<open>(raw \<cdot> resolved + 50 \<cdot> 10) / (resolved + 10)\<close> with \<open>raw = correct / resolved \<cdot> 100\<close>;
  the instance \<open>resolved = 100\<close>, \<open>correct = 80\<close> gives \<open>8500 / 110\<close>.
\<close>
theorem accuracy_score_formula:
  "AccuracyScore (RecalculateAccuracyScore a) =
     (if ResolvedPredictions a = 0 then 50
      else (float64 (CorrectPredictions a) / float64 (ResolvedPredictions a) * 100
              * float64 (ResolvedPredictions a) + 50 * 10)
           / (float64 (ResolvedPredictions a) + 10))"
  by (simp add: RecalculateAccuracyScore_def Let_def)

theorem accuracy_score_formula_witness:
  "AccuracyScore (RecalculateAccuracyScore exampleAgent) = 50 \<and>
   AccuracyScore (RecalculateAccuracyScore
      (exampleAgent\<lparr>ResolvedPredictions := 100, CorrectPredictions := 80\<rparr>)) = 8500 / 110"
  using accuracy_score_formula[of exampleAgent]
        accuracy_score_formula[of "exampleAgent\<lparr>ResolvedPredictions := 100, CorrectPredictions := 80\<rparr>"]
  by (simp add: float64_def exampleAgent_def)

theorem RecalculateAllScores_bounded_witness:
  "(let a = exampleAgent\<lparr>ResolvedPredictions := 100, CorrectPredictions := 80,
                           DaysActiveMonth := 12, CurrentStreak := 5,
                           MarketsCreated := 3, MarketEngagementAvg := 40\<rparr>;
        a' = RecalculateAllScores a
    in 0 \<le> sint (CorrectPredictions a) \<and>
       sint (CorrectPredictions a) \<le> sint (ResolvedPredictions a) \<and>
       0 \<le> sint (DaysActiveMonth a) \<and> 0 \<le> sint (CurrentStreak a) \<and>
       0 \<le> sint (MarketsCreated a) \<and> 0 \<le> MarketEngagementAvg a \<and>
       0 \<le> CompositeScore a' \<and> CompositeScore a' \<le> 100 \<and>
       0 \<le> AccuracyScore a' \<and> AccuracyScore a' \<le> 100 \<and>
       CreatorScore a' = 26)"
proof -
  let ?a = "exampleAgent\<lparr>ResolvedPredictions := 100, CorrectPredictions := 80,
                           DaysActiveMonth := 12, CurrentStreak := 5,
                           MarketsCreated := 3, MarketEngagementAvg := 40\<rparr>"
  have h: "0 \<le> sint (CorrectPredictions ?a)"
       "sint (CorrectPredictions ?a) \<le> sint (ResolvedPredictions ?a)"
       "0 \<le> sint (DaysActiveMonth ?a)" "0 \<le> sint (CurrentStreak ?a)"
       "0 \<le> sint (MarketsCreated ?a)" "0 \<le> MarketEngagementAvg ?a"
    by simp_all
  have c: "CreatorScore (RecalculateAllScores ?a) = 26"
    by (simp add: AllScores_fields RecalculateCreatorScore_def float64_def)
  show ?thesis
    using RecalculateAllScores_bounded[OF h] h c unfolding Let_def by simp
qed

text \<open>
  When the last activity and the event are read in one and the same fixed-offset
  Location (UTC for instance), the transition follows the calendar day: unchanged on
  the same day, both counters up by one on the next day, the streak reset to \<open>1\<close>
  after a longer gap. The longest streak and the last-activity time are updated on
  every call, in any Location.
\<close>
lemma UpdateActivity_fixed_zone:
  "(let a' = UpdateActivity now a
    in LongestStreak a' =
         (if sint (LongestStreak a) < sint (CurrentStreak a')
          then CurrentStreak a' else LongestStreak a) \<and>
       LastActiveAt a' = Some now \<and>
       (\<forall>t off. LastActiveAt a = Some t \<and> location now = FixedZone off
                 \<and> location t = FixedZone off \<longrightarrow>
          (civilDay now = civilDay t \<longrightarrow>
             CurrentStreak a' = CurrentStreak a \<and> DaysActiveMonth a' = DaysActiveMonth a) \<and>
          (civilDay now = civilDay t + 1 \<longrightarrow>
             CurrentStreak a' = CurrentStreak a + 1 \<and>
             DaysActiveMonth a' = DaysActiveMonth a + 1) \<and>
          (civilDay now > civilDay t + 1 \<longrightarrow>
             CurrentStreak a' = 1 \<and> DaysActiveMonth a' = DaysActiveMonth a + 1)))"
proof -
  have streak: "LongestStreak (UpdateActivity now a) =
         (if sint (LongestStreak a) < sint (CurrentStreak (UpdateActivity now a))
          then CurrentStreak (UpdateActivity now a) else LongestStreak a)"
    by (simp add: UpdateActivity_def Let_def int64_gt_def split: option.splits)
  have last: "LastActiveAt (UpdateActivity now a) = Some now"
    by (simp add: UpdateActivity_def Let_def)
  have days: "(civilDay now = civilDay t \<longrightarrow>
             CurrentStreak (UpdateActivity now a) = CurrentStreak a \<and>
             DaysActiveMonth (UpdateActivity now a) = DaysActiveMonth a) \<and>
          (civilDay now = civilDay t + 1 \<longrightarrow>
             CurrentStreak (UpdateActivity now a) = CurrentStreak a + 1 \<and>
             DaysActiveMonth (UpdateActivity now a) = DaysActiveMonth a + 1) \<and>
          (civilDay now > civilDay t + 1 \<longrightarrow>
             CurrentStreak (UpdateActivity now a) = 1 \<and>
             DaysActiveMonth (UpdateActivity now a) = DaysActiveMonth a + 1)"
    if t: "LastActiveAt a = Some t" and z: "location now = FixedZone off"
      and z': "location t = FixedZone off" for t off
    using daysDiff_0[OF z z'] daysDiff_1[OF z z']
    by (simp add: UpdateActivity_def Let_def t)
  show ?thesis unfolding Let_def using streak last days by blast
qed

lemma midnight_newYork:
  "unixNano (startOfDay \<lparr>unixNano = 1710086400000000000, location = newYork\<rparr>)
     = 1710046800000000000"
  "unixNano (startOfDay \<lparr>unixNano = 1710172800000000000, location = newYork\<rparr>)
     = 1710129600000000000"
  by (simp_all add: startOfDay_def dateMidnight_def civilDay_def unixSec_def newYork_def Let_def)

lemma midnight_mixed:
  "unixNano (startOfDay \<lparr>unixNano = 1710064800000000000, location = FixedZone 0\<rparr>)
     = 1710028800000000000"
  "unixNano (startOfDay \<lparr>unixNano = 1710111600000000000, location = FixedZone 32400\<rparr>)
     = 1710082800000000000"
  by (simp_all add: startOfDay_def dateMidnight_def civilDay_def unixSec_def FixedZone_def Let_def)

text \<open>
  Claim C7. The transition is said to be keyed on the calendar day. The code takes the
  hours between the two local midnights, divides by 24 and truncates. In New York the
  day 2024-03-10 has 23 hours: with the last activity at noon on 2024-03-10 and the
  event at noon on 2024-03-11, exactly one calendar day later, the difference is
  \<open>int (23 / 24) = 0\<close> and the streak and the day counter stay at \<open>3\<close> and \<open>5\<close> where
  the claim gives \<open>4\<close> and \<open>6\<close>. The same happens when the last activity is stored in
  UTC (2024-03-10 10:00) and the event is read nine hours east of UTC (2024-03-11
  08:00): the midnights are 15 hours apart.
\<close>
theorem UpdateActivity_next_day_not_counted:
  "(let last = \<lparr>unixNano = 1710086400000000000, location = newYork\<rparr>;
        now = \<lparr>unixNano = 1710172800000000000, location = newYork\<rparr>;
        a = exampleAgent\<lparr>LastActiveAt := Some last, CurrentStreak := 3, LongestStreak := 3,
                          DaysActiveMonth := 5\<rparr>;
        a' = UpdateActivity now a
    in civilDay last = 19792 \<and> civilDay now = 19793 \<and>
       CurrentStreak a' = 3 \<and> DaysActiveMonth a' = 5 \<and> LongestStreak a' = 3) \<and>
   (let last = \<lparr>unixNano = 1710064800000000000, location = FixedZone 0\<rparr>;
        now = \<lparr>unixNano = 1710111600000000000, location = FixedZone 32400\<rparr>;
        a = exampleAgent\<lparr>LastActiveAt := Some last, CurrentStreak := 3, LongestStreak := 3,
                          DaysActiveMonth := 5\<rparr>;
        a' = UpdateActivity now a
    in civilDay last = 19792 \<and> civilDay now = 19793 \<and>
       CurrentStreak a' = 3 \<and> DaysActiveMonth a' = 5 \<and> LongestStreak a' = 3)"
proof -
  have d: "go_int (duration_Hours (82800000000000) / 24) = 0"
          "go_int (duration_Hours (54000000000000) / 24) = 0"
    by (simp_all add: days_of_duration_0 nsPerDay_def)
  have days: "civilDay \<lparr>unixNano = 1710086400000000000, location = newYork\<rparr> = 19792"
             "civilDay \<lparr>unixNano = 1710172800000000000, location = newYork\<rparr> = 19793"
             "civilDay \<lparr>unixNano = 1710064800000000000, location = FixedZone 0\<rparr> = 19792"
             "civilDay \<lparr>unixNano = 1710111600000000000, location = FixedZone 32400\<rparr> = 19793"
    by (simp_all add: civilDay_def unixSec_def newYork_def FixedZone_def)
  have sub: "time_Sub (startOfDay \<lparr>unixNano = 1710172800000000000, location = newYork\<rparr>)
                      (startOfDay \<lparr>unixNano = 1710086400000000000, location = newYork\<rparr>)
               = 82800000000000"
            "time_Sub (startOfDay \<lparr>unixNano = 1710111600000000000, location = FixedZone 32400\<rparr>)
                      (startOfDay \<lparr>unixNano = 1710064800000000000, location = FixedZone 0\<rparr>)
               = 54000000000000"
    by (simp_all add: time_Sub_def midnight_newYork midnight_mixed)
  show ?thesis
    by (simp add: Let_def days UpdateActivity_def sub d int64_gt_def)
qed

lemma Cost_closed_form:
  assumes "0 < B l"
  shows "Cost l x y = B l * ln (exp (x / B l) + exp (y / B l))"
proof -
  define m where "m = max x y"
  define S where "S = exp (x / B l) + exp (y / B l)"
  have Spos: "0 < S" unfolding S_def by (simp add: add_pos_pos)
  have "exp ((x - m) / B l) + exp ((y - m) / B l) = exp (- m / B l) * S"
    unfolding S_def by (simp add: diff_divide_distrib exp_diff exp_minus field_simps)
  then have "ln (exp ((x - m) / B l) + exp ((y - m) / B l)) = - m / B l + ln S"
    using Spos by (simp add: ln_mult)
  then have "Cost l x y = B l * m / B l + B l * (- m / B l + ln S)"
    unfolding Cost_def Let_def m_def by simp
  also have "\<dots> = B l * ln S" using assms by (simp add: algebra_simps)
  finally show ?thesis unfolding S_def .
qed

lemma CostToBuy_yes:
  assumes "0 < B l" "outcome = ''yes'' \<or> outcome = ''YES''"
  shows "CostToBuy l qYes qNo s outcome = buyCost (B l) qYes qNo s"
  using assms(2) by (auto simp: CostToBuy_def Let_def Cost_closed_form[OF assms(1)] buyCost_def)

lemma buyCost_0 [simp]: "buyCost b x y 0 = 0"
  by (simp add: buyCost_def)

lemma DERIV_buyCost:
  assumes "0 < b"
  shows "DERIV (buyCost b x y) s :> priceAfter b x y s"
proof -
  let ?E = "exp ((x + s) / b)" and ?F = "exp (y / b)"
  have pos: "0 < ?E + ?F" by (simp add: add_pos_pos)
  have "((\<lambda>s. b * ln (exp ((x + s) / b) + exp (y / b)) - b * ln (exp (x / b) + exp (y / b)))
          has_real_derivative b * ((?E * (1 / b)) / (?E + ?F))) (at s)"
    using pos by (auto intro!: derivative_eq_intros)
  moreover have "b * ((?E * (1 / b)) / (?E + ?F)) = priceAfter b x y s"
    using assms by (simp add: priceAfter_def)
  ultimately show ?thesis unfolding buyCost_def [abs_def] by simp
qed

lemma priceAfter_pos: "0 < priceAfter b x y s"
  by (simp add: priceAfter_def add_pos_pos)

lemma priceAfter_less_1: "priceAfter b x y s < 1"
  by (simp add: priceAfter_def add_pos_pos)

lemma priceAfter_alt: "priceAfter b x y s = 1 / (1 + exp ((y - x - s) / b))"
proof -
  let ?E = "exp ((x + s) / b)" and ?F = "exp (y / b)" and ?G = "exp ((y - x - s) / b)"
  have "(x + s) / b + (y - x - s) / b = y / b"
    by (simp add: add_divide_distrib [symmetric])
  then have "?E * ?G = ?F" by (simp add: exp_add [symmetric])
  then have "?E + ?F = ?E * (1 + ?G)" by (simp add: algebra_simps)
  then have "priceAfter b x y s = ?E / (?E * (1 + ?G))" by (simp add: priceAfter_def)
  also have "\<dots> = 1 / (1 + ?G)" by simp
  finally show ?thesis .
qed

lemma priceAfter_mono:
  assumes "0 < b" "s \<le> t"
  shows "priceAfter b x y s \<le> priceAfter b x y t"
proof -
  have "(y - x - t) / b \<le> (y - x - s) / b"
    using assms by (simp add: divide_right_mono)
  then have "exp ((y - x - t) / b) \<le> exp ((y - x - s) / b)" by simp
  then show ?thesis unfolding priceAfter_alt
    by (intro divide_left_mono) (simp_all add: add_pos_pos)
qed

lemma buyCost_strict_mono:
  assumes "0 < b" "s < t"
  shows "buyCost b x y s < buyCost b x y t"
  using assms(2)
  by (rule DERIV_pos_imp_increasing) (blast intro: DERIV_buyCost[OF assms(1)] priceAfter_pos)

lemma buyCost_MVT:
  assumes "0 < b" "s < t"
  obtains z where "s < z" "z < t" "buyCost b x y t - buyCost b x y s = (t - s) * priceAfter b x y z"
  using MVT2[OF assms(2), of "buyCost b x y" "priceAfter b x y"] DERIV_buyCost[OF assms(1)]
  by blast

lemma searchShares_between:
  "low \<le> high \<Longrightarrow>
   low \<le> searchShares l qYes qNo cost outcome low high i \<and>
   searchShares l qYes qNo cost outcome low high i \<le> high"
proof (induction l qYes qNo cost outcome low high i rule: searchShares.induct)
  case (1 l qYes qNo cost outcome low high i)
  let ?mid = "(low + high) / 2"
  have m: "low \<le> ?mid" "?mid \<le> high" using "1.prems" by simp_all
  show ?case
  proof (cases "i < 100")
    case False
    then show ?thesis using m by (subst (1 2) searchShares.simps) simp
  next
    case True
    show ?thesis
    proof (cases "\<bar>CostToBuy l qYes qNo ?mid outcome - cost\<bar> < 1 / 10000")
      case near: True
      then show ?thesis using True m by (subst (1 2) searchShares.simps) (simp add: Let_def)
    next
      case far: False
      show ?thesis
      proof (cases "CostToBuy l qYes qNo ?mid outcome < cost")
        case less: True
        have "?mid \<le> searchShares l qYes qNo cost outcome ?mid high (i + 1) \<and>
              searchShares l qYes qNo cost outcome ?mid high (i + 1) \<le> high"
          using "1.IH"(1)[OF True refl refl far less m(2)] .
        then show ?thesis using True far less m
          by (subst (1 2) searchShares.simps) (simp add: Let_def)
      next
        case notless: False
        have "low \<le> searchShares l qYes qNo cost outcome low ?mid (i + 1) \<and>
              searchShares l qYes qNo cost outcome low ?mid (i + 1) \<le> ?mid"
          using "1.IH"(2)[OF True refl refl far notless m(1)] .
        then show ?thesis using True far notless m
          by (subst (1 2) searchShares.simps) (simp add: Let_def)
      qed
    qed
  qed
qed

lemma buyCost_upper:
  assumes "0 < b" "0 < s"
  shows "buyCost b x y s \<le> s * priceAfter b x y s"
proof -
  obtain z where z: "0 < z" "z < s" "buyCost b x y s - buyCost b x y 0 = (s - 0) * priceAfter b x y z"
    using buyCost_MVT[OF assms] by blast
  have "priceAfter b x y z \<le> priceAfter b x y s"
    using z(2) by (intro priceAfter_mono[OF assms(1)]) simp
  then show ?thesis using z(3) assms(2) by (simp add: mult_left_mono)
qed

text \<open>
  Claim C3. Buying and then inverting the cost is said to recover the share count to
  within \<open>1/1000\<close>. \<open>SharesForCost\<close> searches the interval \<open>[0, 10 \<cdot> cost]\<close> only, so it
  cannot return a share count that was bought at an average price below \<open>1/10\<close>. At
  the default liquidity \<open>100\<close> with \<open>qYes = 0\<close> and \<open>qNo = 300\<close>, ten YES shares cost less
  than \<open>10/13\<close>, and inverting that cost returns at most \<open>8\<close> shares, not \<open>10\<close>.
\<close>
theorem SharesForCost_misses_cheap_shares:
  "0 < CostToBuy (New 100) 0 300 10 ''yes'' \<and>
   CostToBuy (New 100) 0 300 10 ''yes'' \<le> 10 / 13 \<and>
   SharesForCost (New 100) 0 300 (CostToBuy (New 100) 0 300 10 ''yes'') ''yes'' \<le> 8 \<and>
   \<not> \<bar>SharesForCost (New 100) 0 300 (CostToBuy (New 100) 0 300 10 ''yes'') ''yes'' - 10\<bar>
       \<le> 1 / 1000"
proof -
  have b: "0 < B (New 100)" by (simp add: New_def)
  have B100: "B (New 100) = 100" by (simp add: New_def)
  define c where "c = CostToBuy (New 100) 0 300 10 ''yes''"
  have c: "c = buyCost 100 0 300 10"
    unfolding c_def using CostToBuy_yes[OF b, of "''yes''" 0 300 10] by (simp add: B100)
  have cpos: "0 < c"
    unfolding c using buyCost_strict_mono[of 100 0 10 0 300] by simp
  have "(7 / 2 :: real) \<le> 1 + 29 / 20 + (29 / 20)\<^sup>2 / 2" by (simp add: power2_eq_square)
  also have "\<dots> \<le> exp (29 / 20)" by (rule exp_lower_Taylor_quadratic) simp
  finally have e: "(7 / 2 :: real) \<le> exp (29 / 20)" .
  have "(12 :: real) \<le> (7 / 2) * (7 / 2)" by simp
  also have "\<dots> \<le> exp (29 / 20) * exp (29 / 20)"
    using e by (intro mult_mono) simp_all
  also have "\<dots> = exp (29 / 10)" by (simp add: exp_add [symmetric])
  finally have e2: "(12 :: real) \<le> exp (29 / 10)" .
  have "priceAfter 100 0 300 10 = 1 / (1 + exp (29 / 10))"
    unfolding priceAfter_alt by simp
  also have "\<dots> \<le> 1 / 13" using e2 by (intro divide_left_mono) simp_all
  finally have p: "priceAfter 100 0 300 10 \<le> 1 / 13" .
  have chi: "c \<le> 10 / 13"
    unfolding c using buyCost_upper[of 100 10 0 300] p by simp
  have "searchShares (New 100) 0 300 c ''yes'' 0 (c * 10) 0 \<le> c * 10"
    using searchShares_between[of 0 "c * 10" "New 100" 0 300 c "''yes''" 0] cpos by simp
  then have r: "SharesForCost (New 100) 0 300 c ''yes'' \<le> 8"
    using cpos chi by (simp add: SharesForCost_def)
  then have "\<not> \<bar>SharesForCost (New 100) 0 300 c ''yes'' - 10\<bar> \<le> 1 / 1000" by simp
  then show ?thesis using cpos chi r unfolding c_def by simp
qed

lemma CostToBuy_other_outcome:
  "outcome \<noteq> ''yes'' \<Longrightarrow> outcome \<noteq> ''YES'' \<Longrightarrow>
   CostToBuy l qYes qNo shares outcome = Cost l qYes (qNo + shares) - Cost l qYes qNo"
  by (simp add: CostToBuy_def Let_def)

lemma searchShares_other_outcome:
  "outcome \<noteq> ''yes'' \<Longrightarrow> outcome \<noteq> ''YES'' \<Longrightarrow>
   searchShares l qYes qNo cost outcome low high i
     = searchShares l qYes qNo cost ''NO'' low high i"
proof (induction l qYes qNo cost outcome low high i rule: searchShares.induct)
  case (1 l qYes qNo cost outcome low high i)
  have eq: "CostToBuy l qYes qNo m outcome = CostToBuy l qYes qNo m ''NO''" for m
    using "1.prems" by (simp add: CostToBuy_other_outcome)
  show ?case
  proof (cases "i < 100")
    case False
    then show ?thesis
      by (subst searchShares.simps, subst (2) searchShares.simps) simp
  next
    case True
    let ?mid = "(low + high) / 2"
    show ?thesis
    proof (cases "\<bar>CostToBuy l qYes qNo ?mid outcome - cost\<bar> < 1 / 10000")
      case near: True
      then show ?thesis using True eq
        by (subst searchShares.simps, subst (2) searchShares.simps) (simp add: Let_def)
    next
      case far: False
      show ?thesis
      proof (cases "CostToBuy l qYes qNo ?mid outcome < cost")
        case less: True
        show ?thesis
          using "1.IH"(1)[OF True refl refl far less "1.prems"] True far less eq
          by (subst searchShares.simps, subst (2) searchShares.simps) (simp add: Let_def)
      next
        case notless: False
        show ?thesis
          using "1.IH"(2)[OF True refl refl far notless "1.prems"] True far notless eq
          by (subst searchShares.simps, subst (2) searchShares.simps) (simp add: Let_def)
      qed
    qed
  qed
qed

text \<open>
  Claim C1, as amended. The pricing functions return a number and have no error
  result: an outcome string other than \<open>''yes''\<close> and \<open>''YES''\<close> is priced as the NO
  side by \<open>CostToBuy\<close>, \<open>CostToSell\<close>, \<open>SharesForCost\<close>, \<open>NewProbabilityAfterBet\<close> and
  \<open>SimulateBet\<close>.
\<close>
theorem other_outcome_priced_as_no:
  assumes "outcome \<noteq> ''yes''" and "outcome \<noteq> ''YES''"
  shows "CostToBuy l qYes qNo x outcome = Cost l qYes (qNo + x) - Cost l qYes qNo \<and>
         CostToSell l qYes qNo x outcome = - (Cost l qYes (qNo - x) - Cost l qYes qNo) \<and>
         SharesForCost l qYes qNo x outcome = SharesForCost l qYes qNo x ''NO'' \<and>
         NewProbabilityAfterBet l qYes qNo x outcome
           = PriceYes l qYes (qNo + SharesForCost l qYes qNo x ''NO'') \<and>
         SimulateBet l qYes qNo x outcome = SimulateBet l qYes qNo x ''NO''"
proof -
  have s: "SharesForCost l qYes qNo x outcome = SharesForCost l qYes qNo x ''NO''"
    unfolding SharesForCost_def searchShares_other_outcome[OF assms] ..
  have o: "(outcome = ''yes'' \<or> outcome = ''YES'') = False" using assms by simp
  have n: "(''NO'' = ''yes'' \<or> ''NO'' = ''YES'') = False" by simp
  have c1: "CostToBuy l qYes qNo x outcome = Cost l qYes (qNo + x) - Cost l qYes qNo"
    using assms by (rule CostToBuy_other_outcome)
  have c2: "CostToSell l qYes qNo x outcome = - (Cost l qYes (qNo - x) - Cost l qYes qNo)"
    unfolding CostToSell_def CostToBuy_other_outcome[OF assms] by simp
  have c3: "NewProbabilityAfterBet l qYes qNo x outcome
           = PriceYes l qYes (qNo + SharesForCost l qYes qNo x ''NO'')"
    unfolding NewProbabilityAfterBet_def s o by (simp add: Let_def)
  have c4: "SimulateBet l qYes qNo x outcome = SimulateBet l qYes qNo x ''NO''"
    unfolding SimulateBet_def s o n ..
  show ?thesis using c1 c2 s c3 c4 by blast
qed

theorem other_outcome_priced_as_no_witness:
  "''maybe'' \<noteq> ''yes'' \<and> ''maybe'' \<noteq> ''YES'' \<and>
   CostToBuy (New 100) 0 0 10 ''maybe'' = Cost (New 100) 0 10 - Cost (New 100) 0 0 \<and>
   SimulateBet (New 100) 0 0 10 ''maybe'' = SimulateBet (New 100) 0 0 10 ''NO''"
  using other_outcome_priced_as_no[of "''maybe''" "New 100" 0 0 10] by simp

theorem invalid_outcome_counterexample:
  "CostToBuy_spec (New 100) 0 0 10 ''maybe'' = Inl InvalidOutcome \<and>
   Inr (CostToBuy (New 100) 0 0 10 ''maybe'') \<noteq> CostToBuy_spec (New 100) 0 0 10 ''maybe'' \<and>
   CostToBuy (New 100) 0 0 10 ''maybe'' = CostToBuy (New 100) 0 0 10 ''NO''"
  by (simp add: CostToBuy_spec_def CostToBuy_def)

text \<open>
  Claim C8. \<open>SimulateBet\<close> divides the cost by the share count with no guard. For an
  amount of zero \<open>SharesForCost\<close> returns \<open>0\<close> and the average price is \<open>0/0\<close>, a NaN;
  for a negative amount it is \<open>-Inf\<close>.
\<close>
theorem SimulateBet_zero_shares_not_finite:
  "SharesReceived (SimulateBet (New 100) 0 0 0 ''yes'') = 0 \<and>
   AveragePrice (SimulateBet (New 100) 0 0 0 ''yes'') = NaN \<and>
   AveragePrice (SimulateBet (New 100) 0 0 (- 5) ''yes'') = NegInf"
  by (simp add: SimulateBet_def SharesForCost_def float_div_def Let_def)

end
